theory Spec2Isabelle
  imports Main
begin

section \<open>The PostgreSQL game store\<close>

text \<open>
  A shallow embedding of the class \<open>PostgreSQL\<close> (the versioned game-state store).
  The two relations are lists of rows. The connection pool \<open>this.client\<close> is not part
  of the repository: every \<open>client.query\<close> call takes an argument \<open>fault\<close> that says
  how the backend answers, \<open>Some err\<close> for a failed query (which leaves both relations as
  they were, a statement being atomic) and \<open>None\<close> for a query that executes; then the
  statement's meaning is the list function written next to it.  The state also records
  which statements were sent to the client and what was written to the console.
  The rejection of a returned promise is the \<open>Inl\<close> result its caller receives. A
  method that returns \<open>void\<close> has returned to its caller before the backend answers: an
  exception thrown inside its query callback is raised there, where no caller of the
  method catches it, and it is recorded as an \<open>error option\<close> of its own (\<open>None\<close> when
  nothing is thrown), apart from what the caller receives.
  Timestamps are microseconds as unbounded integers, and a day is \<open>usecs_per_day\<close> of
  them; the ranges of the backend's column types are not modelled.
\<close>

subsection \<open>Data\<close>

type_synonym GameId = string

datatype error = PgError string | Error string

fun message :: "error \<Rightarrow> string" where
  "message (PgError m) = m"
| "message (Error m) = m"

text \<open>A row of \<open>games\<close>; the primary key is \<open>(game_id, save_id)\<close>.\<close>

record game_row =
  game_id :: GameId
  players :: int
  save_id :: int
  game :: string
  status :: string
  created_time :: int

text \<open>A row of \<open>game_results\<close>; the primary key is \<open>game_id\<close>.\<close>

record result_row =
  r_game_id :: GameId
  r_seed_game_id :: "GameId option"
  r_players :: int
  r_generations :: int
  r_game_options :: string
  r_scores :: string

text \<open>
  What a query callback receives for a \<open>save_id\<close>: a number, SQL's \<open>NULL\<close> (JavaScript's
  \<open>null\<close>) or \<open>undefined\<close>.
\<close>

datatype jsval = Undefined | Null | Number int

datatype statement =
    SelectPlayers GameId
  | SelectRunningGames
  | SelectSaveIds GameId
  | InsertGameResult GameId
  | SelectMaxSaveId GameId
  | DeleteIntermediateSaves GameId jsval
  | UpdateStatusFinished GameId
  | DeleteOlderThan int
  | UpsertGame GameId int
  | DeleteLastSaves GameId int

datatype log_entry =
    ConsoleError "string list" error
  | ConsoleWarn string
  | ConsoleLogPurged nat

record pg =
  games :: "game_row list"
  game_results :: "result_row list"
  issued :: "statement list"
  console :: "log_entry list"

definition issue :: "statement \<Rightarrow> pg \<Rightarrow> pg" where
  "issue q s = s\<lparr>issued := issued s @ [q]\<rparr>"

definition log_line :: "log_entry \<Rightarrow> pg \<Rightarrow> pg" where
  "log_line l s = s\<lparr>console := console s @ [l]\<rparr>"

text \<open>The statements sent to the client between two states.\<close>

definition issued_since :: "pg \<Rightarrow> pg \<Rightarrow> statement list" where
  "issued_since s s' = drop (length (issued s)) (issued s')"

text \<open>The primary key of \<open>games\<close>.\<close>

definition games_pk :: "game_row list \<Rightarrow> bool" where
  "games_pk rows = distinct (map (\<lambda>r. (game_id r, save_id r)) rows)"

definition rows_of :: "GameId \<Rightarrow> game_row list \<Rightarrow> game_row list" where
  "rows_of g rows = filter (\<lambda>r. game_id r = g) rows"

subsection \<open>getPlayerCount\<close>

text \<open>
  \<open>SELECT players FROM games WHERE save_id = 0 AND game_id = $1 LIMIT 1\<close>.
  The result is the pair of arguments the callback \<open>cb\<close> is called with; \<open>None\<close> is
  \<open>undefined\<close>.
\<close>

definition select_players :: "GameId \<Rightarrow> game_row list \<Rightarrow> int list" where
  "select_players g rows =
     take 1 (map players (filter (\<lambda>r. save_id r = 0 \<and> game_id r = g) rows))"

definition getPlayerCount ::
  "error option \<Rightarrow> GameId \<Rightarrow> pg \<Rightarrow> (error option \<times> int option) \<times> pg" where
  "getPlayerCount fault g s =
     (let s1 = issue (SelectPlayers g) s in
      case fault of
        Some err \<Rightarrow>
          ((Some err, None), log_line (ConsoleError [''PostgreSQL:getPlayerCount''] err) s1)
      | None \<Rightarrow>
          (case select_players g (games s) of
             [] \<Rightarrow> ((None, None), s1)
           | p # _ \<Rightarrow> ((None, Some p), s1)))"

subsection \<open>getGames\<close>

text \<open>
  The inner query \<open>SELECT max(save_id) save_id, game_id FROM games WHERE status='running'
  GROUP BY game_id\<close>: one pair for every game that has a running row.
\<close>

definition running_max :: "game_row list \<Rightarrow> (GameId \<times> int) list" where
  "running_max rows =
     (let running = filter (\<lambda>r. status r = ''running'') rows in
      map (\<lambda>g. (g, Max (set (map save_id (rows_of g running)))))
          (remdups (map game_id running)))"

text \<open>
  The join of \<open>games\<close> with the inner query on \<open>game_id\<close> and \<open>save_id\<close>, ordered by
  \<open>created_time DESC\<close> (rows created at the same time keep the order of the join).
\<close>

definition select_running_games :: "game_row list \<Rightarrow> GameId list" where
  "select_running_games rows =
     map game_id
       (sort_key (\<lambda>r. - created_time r)
          (concat (map (\<lambda>r. map (\<lambda>a. r)
                     (filter (\<lambda>a. game_id r = fst a \<and> save_id r = snd a) (running_max rows)))
                   rows)))"

definition getGames :: "error option \<Rightarrow> pg \<Rightarrow> (error + GameId list) \<times> pg" where
  "getGames fault s =
     (let s1 = issue SelectRunningGames s in
      case fault of
        Some err \<Rightarrow> (Inl err, log_line (ConsoleError [''PostgreSQL:getGames''] err) s1)
      | None \<Rightarrow> (Inr (select_running_games (games s)), s1))"

subsection \<open>getSaveIds\<close>

text \<open>\<open>SELECT distinct save_id FROM games WHERE game_id = $1\<close>; a failed query rejects.\<close>

definition select_save_ids :: "GameId \<Rightarrow> game_row list \<Rightarrow> int list" where
  "select_save_ids g rows = remdups (map save_id (rows_of g rows))"

definition getSaveIds :: "error option \<Rightarrow> GameId \<Rightarrow> pg \<Rightarrow> (error + int list) \<times> pg" where
  "getSaveIds fault g s =
     (let s1 = issue (SelectSaveIds g) s in
      case fault of
        Some err \<Rightarrow> (Inl err, s1)
      | None \<Rightarrow> (Inr (select_save_ids g (games s)), s1))"

subsection \<open>saveGameResults\<close>

text \<open>
  The types \<open>GameOptions\<close> and \<open>Score\<close> are declared outside the class: of the options
  only \<open>clonedGamedId\<close> is read, and \<open>optionsText\<close> is the text the client stores for the
  object. \<open>JSON.stringify\<close> is the parameter \<open>stringify\<close>.
\<close>

record GameOptions =
  clonedGamedId :: "GameId option"
  optionsText :: string

record Score =
  player :: string
  playerScore :: int

text \<open>
  \<open>INSERT INTO game_results (...) VALUES (...)\<close>: the backend refuses a second row with
  the same \<open>game_id\<close>.
\<close>

definition duplicate_key :: error where
  "duplicate_key =
     PgError ''duplicate key value violates unique constraint game_results_pkey''"

definition insert_result :: "result_row \<Rightarrow> result_row list \<Rightarrow> error + result_row list" where
  "insert_result r rows =
     (if r_game_id r \<in> set (map r_game_id rows) then Inl duplicate_key
      else Inr (rows @ [r]))"

text \<open>
  \<open>saveGameResults\<close> sends the query and returns: its caller always receives a normal
  return, the first component \<open>Inr ()\<close>. The second component is the exception that the
  callback throws, after logging, when the query failed; it is thrown inside the
  callback, after the return, and reaches no caller.
\<close>

definition saveGameResults ::
  "(Score list \<Rightarrow> string) \<Rightarrow> error option \<Rightarrow> GameId \<Rightarrow> int \<Rightarrow> int \<Rightarrow> GameOptions \<Rightarrow>
   Score list \<Rightarrow> pg \<Rightarrow> (error + unit) \<times> error option \<times> pg" where
  "saveGameResults stringify fault g n gens gameOptions scs s =
     (let s1 = issue (InsertGameResult g) s;
          row = \<lparr>r_game_id = g, r_seed_game_id = clonedGamedId gameOptions, r_players = n,
                 r_generations = gens, r_game_options = optionsText gameOptions,
                 r_scores = stringify scs\<rparr>;
          res = (case fault of Some err \<Rightarrow> Inl err
                 | None \<Rightarrow> insert_result row (game_results s))
      in case res of
           Inl err \<Rightarrow>
             (Inr (), Some err,
              log_line (ConsoleError [''PostgreSQL:saveGameResults''] err) s1)
         | Inr rows \<Rightarrow> (Inr (), None, s1\<lparr>game_results := rows\<rparr>))"

subsection \<open>getMaxSaveId and throwIf\<close>

text \<open>
  \<open>SELECT MAX(save_id) as save_id FROM games WHERE game_id = $1\<close> always has one row,
  whose \<open>save_id\<close> is \<open>NULL\<close> when the game has no row. The result is the pair of
  arguments of the callback.
\<close>

definition select_max_save_id :: "GameId \<Rightarrow> game_row list \<Rightarrow> jsval" where
  "select_max_save_id g rows =
     (case map save_id (rows_of g rows) of
        [] \<Rightarrow> Null
      | v # vs \<Rightarrow> Number (Max (set (v # vs))))"

definition getMaxSaveId ::
  "error option \<Rightarrow> GameId \<Rightarrow> pg \<Rightarrow> (error option \<times> jsval) \<times> pg" where
  "getMaxSaveId fault g s =
     (let s1 = issue (SelectMaxSaveId g) s in
      case fault of
        Some err \<Rightarrow> ((Some err, Undefined), s1)
      | None \<Rightarrow> ((None, select_max_save_id g (games s)), s1))"

text \<open>\<open>throwIf\<close>: \<open>Some err\<close> in the result is the exception thrown.\<close>

definition throwIf :: "error option \<Rightarrow> string \<Rightarrow> pg \<Rightarrow> error option \<times> pg" where
  "throwIf err condition s =
     (case err of
        Some e \<Rightarrow> (Some e, log_line (ConsoleError [''PostgreSQL'', condition] e) s)
      | None \<Rightarrow> (None, s))"

subsection \<open>purgeUnfinishedGames\<close>

text \<open>
  JavaScript's \<open>parseInt\<close> with no radix, on strings of code units below 256: leading
  white space is skipped, a sign is read, \<open>0x\<close> or \<open>0X\<close> selects radix 16, the longest run
  of digits is read and whatever follows is ignored; no digit gives \<open>NaN\<close>. The integer
  read becomes a Number (\<open>to_number\<close>: exact below \<open>2^53\<close>, else rounded to 53 significant
  bits, ties to even, and infinite from \<open>2^1024\<close>).
\<close>

datatype jsnumber = NaN | Infinite | Finite int

definition isWhiteSpace :: "char \<Rightarrow> bool" where
  "isWhiteSpace c = (of_char c \<in> {9, 10, 11, 12, 13, 32, 160 :: int})"

definition digit_value :: "char \<Rightarrow> int option" where
  "digit_value c =
     (let n = (of_char c :: int) in
      if 48 \<le> n \<and> n \<le> 57 then Some (n - 48)
      else if 97 \<le> n \<and> n \<le> 122 then Some (n - 87)
      else if 65 \<le> n \<and> n \<le> 90 then Some (n - 55)
      else None)"

definition radix_digit :: "int \<Rightarrow> char \<Rightarrow> bool" where
  "radix_digit R c = (case digit_value c of Some d \<Rightarrow> d < R | None \<Rightarrow> False)"

definition digits_value :: "int \<Rightarrow> string \<Rightarrow> int" where
  "digits_value R ds = foldl (\<lambda>acc c. acc * R + (case digit_value c of Some d \<Rightarrow> d | None \<Rightarrow> 0)) 0 ds"

fun bit_length :: "int \<Rightarrow> nat" where
  "bit_length n = (if n \<le> 0 then 0 else Suc (bit_length (n div 2)))"

declare bit_length.simps [simp del]

definition to_number :: "int \<Rightarrow> jsnumber" where
  "to_number n =
     (if n < 2 ^ 53 then Finite n
      else
        let e = bit_length n - 53;
            q = n div 2 ^ e;
            r = n mod 2 ^ e;
            half = 2 ^ (e - 1);
            q' = (if half < r \<or> (r = half \<and> odd q) then q + 1 else q);
            v = q' * 2 ^ e
        in if 2 ^ 1024 \<le> v then Infinite else Finite v)"

definition parseInt :: "string \<Rightarrow> jsnumber" where
  "parseInt inputString =
     (let S = dropWhile isWhiteSpace inputString;
          neg = (S \<noteq> [] \<and> hd S = CHR ''-'');
          S1 = (if S \<noteq> [] \<and> (hd S = CHR ''+'' \<or> hd S = CHR ''-'') then tl S else S);
          hex = (take 2 S1 = ''0x'' \<or> take 2 S1 = ''0X'');
          R = (if hex then 16 else 10);
          S2 = (if hex then drop 2 S1 else S1);
          Z = takeWhile (radix_digit R) S2
      in if Z = [] then NaN
         else (case to_number (digits_value R Z) of
                 Finite m \<Rightarrow> Finite (if neg then - m else m)
               | x \<Rightarrow> x))"

text \<open>
  The number of days: \<open>arg\<close> is the argument \<open>maxGameDays\<close>, whose default is the
  environment variable \<open>MAX_GAME_DAYS\<close> (\<open>env\<close>); \<open>None\<close> is \<open>undefined\<close>.
\<close>

definition default_maxGameDays :: "string option \<Rightarrow> string option \<Rightarrow> string option" where
  "default_maxGameDays env arg = (case arg of None \<Rightarrow> env | Some v \<Rightarrow> Some v)"

definition purge_days :: "string option \<Rightarrow> string option \<Rightarrow> int" where
  "purge_days env arg =
     (let maxGameDays = default_maxGameDays env arg;
          envDays = parseInt (case maxGameDays of None \<Rightarrow> [] | Some v \<Rightarrow> v)
      in case envDays of Finite d \<Rightarrow> d | _ \<Rightarrow> 10)"

text \<open>
  The specification's words for the configured value, "a valid integer": an optional sign
  and one or more decimal digits, and nothing else. It is compared with what \<open>parseInt\<close>
  accepts.
\<close>

definition valid_integer :: "string \<Rightarrow> bool" where
  "valid_integer v =
     (let ds = (if v \<noteq> [] \<and> (hd v = CHR ''+'' \<or> hd v = CHR ''-'') then tl v else v)
      in ds \<noteq> [] \<and> list_all (\<lambda>c. c \<in> set ''0123456789'') ds)"




definition usecs_per_day :: int where
  "usecs_per_day = 86400000000"

text \<open>\<open>DELETE FROM games WHERE created_time < now() - interval '1 day' * $1\<close>.\<close>

definition delete_older_than :: "int \<Rightarrow> int \<Rightarrow> game_row list \<Rightarrow> game_row list" where
  "delete_older_than now days rows =
     filter (\<lambda>r. \<not> created_time r < now - usecs_per_day * days) rows"

text \<open>
  The callback logs the number of rows purged, or warns with the message of the error;
  nothing is thrown, so the result is always \<open>None\<close>.
\<close>

definition purgeUnfinishedGames ::
  "error option \<Rightarrow> int \<Rightarrow> string option \<Rightarrow> string option \<Rightarrow> pg \<Rightarrow> error option \<times> pg" where
  "purgeUnfinishedGames fault now env arg s =
     (let days = purge_days env arg;
          s1 = issue (DeleteOlderThan days) s in
      case fault of
        Some err \<Rightarrow> (None, log_line (ConsoleWarn (message err)) s1)
      | None \<Rightarrow>
          (let kept = delete_older_than now days (games s);
               s2 = log_line (ConsoleLogPurged (length (games s) - length kept)) s1
           in (None, s2\<lparr>games := kept\<rparr>)))"

subsection \<open>cleanSaves\<close>

text \<open>
  \<open>DELETE FROM games WHERE game_id = $1 AND save_id < $2 AND save_id > 0\<close>; a comparison
  with \<open>NULL\<close> holds of no row.
\<close>

definition delete_intermediate :: "GameId \<Rightarrow> jsval \<Rightarrow> game_row list \<Rightarrow> game_row list" where
  "delete_intermediate g v rows =
     (case v of
        Number h \<Rightarrow> filter (\<lambda>r. \<not> (game_id r = g \<and> save_id r < h \<and> save_id r > 0)) rows
      | _ \<Rightarrow> rows)"

text \<open>\<open>UPDATE games SET status = 'finished' WHERE game_id = $1\<close>.\<close>

definition update_finished :: "GameId \<Rightarrow> game_row list \<Rightarrow> game_row list" where
  "update_finished g rows =
     map (\<lambda>r. if game_id r = g then r\<lparr>status := ''finished''\<rparr> else r) rows"

text \<open>
  The four queries of \<open>cleanSaves\<close>, each in the callback of the one before; \<open>f0\<close> to \<open>f3\<close>
  are the backend's answers to them. \<open>Some err\<close> in the result is the exception thrown
  by \<open>throwIf\<close> (or by the test for \<open>undefined\<close>), which ends the callback; it is
  thrown inside a callback, after \<open>cleanSaves\<close> has returned, and reaches no caller.
\<close>

definition cleanSaves ::
  "error option \<Rightarrow> error option \<Rightarrow> error option \<Rightarrow> error option \<Rightarrow> int \<Rightarrow> string option \<Rightarrow>
   GameId \<Rightarrow> pg \<Rightarrow> error option \<times> pg" where
  "cleanSaves f0 f1 f2 f3 now env g s =
     (case getMaxSaveId f0 g s of ((err, saveId), s1) \<Rightarrow>
      (case throwIf err ''cleanSaves0'' s1 of
         (Some e, s2) \<Rightarrow> (Some e, s2)
       | (None, s2) \<Rightarrow>
           if saveId = Undefined then (Some (Error (''saveId is undefined for '' @ g)), s2)
           else
             (let s3 = issue (DeleteIntermediateSaves g saveId) s2;
                  s4 = (case f1 of Some _ \<Rightarrow> s3
                        | None \<Rightarrow> s3\<lparr>games := delete_intermediate g saveId (games s3)\<rparr>)
              in case throwIf f1 ''cleanSaves1'' s4 of
                   (Some e, s5) \<Rightarrow> (Some e, s5)
                 | (None, s5) \<Rightarrow>
                     (let s6 = issue (UpdateStatusFinished g) s5;
                          s7 = (case f2 of Some _ \<Rightarrow> s6
                                | None \<Rightarrow> s6\<lparr>games := update_finished g (games s6)\<rparr>)
                      in case throwIf f2 ''cleanSaves2'' s7 of
                           (Some e, s8) \<Rightarrow> (Some e, s8)
                         | (None, s8) \<Rightarrow> purgeUnfinishedGames f3 now env None s8))))"

subsection \<open>saveGame\<close>

text \<open>
  Of a \<open>Game\<close> the store reads \<open>id\<close>, \<open>lastSaveId\<close> and the number of players;
  \<open>game.toJSON()\<close> is the parameter \<open>toJSON\<close>.
\<close>

record Game =
  id' :: GameId
  lastSaveId :: int
  getPlayers :: "string list"

text \<open>
  \<open>INSERT INTO games (game_id, save_id, game, players) VALUES ($1, $2, $3, $4)
  ON CONFLICT (game_id, save_id) DO UPDATE SET game = $3\<close>; a new row takes the
  defaults of \<open>status\<close> and \<open>created_time\<close>.
\<close>

definition upsert_game ::
  "int \<Rightarrow> GameId \<Rightarrow> int \<Rightarrow> string \<Rightarrow> int \<Rightarrow> game_row list \<Rightarrow> game_row list" where
  "upsert_game now g v doc n rows =
     (if (g, v) \<in> set (map (\<lambda>r. (game_id r, save_id r)) rows)
      then map (\<lambda>r. if game_id r = g \<and> save_id r = v then r\<lparr>game := doc\<rparr> else r) rows
      else rows @ [\<lparr>game_id = g, players = n, save_id = v, game = doc,
                    status = ''running'', created_time = now\<rparr>])"

text \<open>
  The promise of \<open>saveGame\<close>: its \<open>catch\<close> handler logs the error and returns, so the
  promise is fulfilled (\<open>Inr ()\<close>) whatever the backend answers. The second component is
  the game object after the call.
\<close>

definition saveGame ::
  "(Game \<Rightarrow> string) \<Rightarrow> error option \<Rightarrow> int \<Rightarrow> Game \<Rightarrow> pg \<Rightarrow> (error + unit) \<times> Game \<times> pg" where
  "saveGame toJSON fault now theGame s =
     (let gameJSON = toJSON theGame;
          s1 = issue (UpsertGame (id' theGame) (lastSaveId theGame)) s in
      case fault of
        Some err \<Rightarrow> (Inr (), theGame, log_line (ConsoleError [''PostgreSQL:saveGame''] err) s1)
      | None \<Rightarrow>
          (Inr (), theGame\<lparr>lastSaveId := lastSaveId theGame + 1\<rparr>,
           s1\<lparr>games := upsert_game now (id' theGame) (lastSaveId theGame) gameJSON
                          (int (length (getPlayers theGame))) (games s)\<rparr>))"

subsection \<open>deleteGameNbrSaves\<close>

text \<open>
  \<open>DELETE FROM games WHERE ctid IN (SELECT ctid FROM games WHERE game_id = $1
  ORDER BY save_id DESC LIMIT $2)\<close>: the rows of the game with the \<open>$2\<close> highest
  \<open>save_id\<close>, which the primary key makes distinct.
\<close>

definition delete_last_saves :: "GameId \<Rightarrow> int \<Rightarrow> game_row list \<Rightarrow> game_row list" where
  "delete_last_saves g k rows =
     (let top = take (nat k) (rev (sort (map save_id (rows_of g rows))))
      in filter (\<lambda>r. \<not> (game_id r = g \<and> save_id r \<in> set top)) rows)"

definition deleteGameNbrSaves ::
  "error option \<Rightarrow> GameId \<Rightarrow> int \<Rightarrow> pg \<Rightarrow> error option \<times> pg" where
  "deleteGameNbrSaves fault g rollbackCount s =
     (if rollbackCount > 0 then
        (let s1 = issue (DeleteLastSaves g rollbackCount) s in
         case fault of
           Some err \<Rightarrow> (None, log_line (ConsoleWarn (message err)) s1)
         | None \<Rightarrow> (None, s1\<lparr>games := delete_last_saves g rollbackCount (games s)\<rparr>))
      else (None, s))"

subsection \<open>Sample data\<close>

text \<open>Concrete rows, games and serialisers, for instances of the theorems below.\<close>

definition sample_row :: "GameId \<Rightarrow> int \<Rightarrow> string \<Rightarrow> int \<Rightarrow> game_row" where
  "sample_row g v st t =
     \<lparr>game_id = g, players = 2, save_id = v, game = ''{}'', status = st, created_time = t\<rparr>"

definition sample_pg :: "game_row list \<Rightarrow> pg" where
  "sample_pg rows = \<lparr>games = rows, game_results = [], issued = [], console = []\<rparr>"

definition sample_game :: "GameId \<Rightarrow> int \<Rightarrow> Game" where
  "sample_game g v = \<lparr>id' = g, lastSaveId = v, getPlayers = [''p1'', ''p2'']\<rparr>"

definition sample_toJSON :: "Game \<Rightarrow> string" where
  "sample_toJSON gm = ''{id:'' @ id' gm @ ''}''"

definition sample_stringify :: "Score list \<Rightarrow> string" where
  "sample_stringify scs = concat (map (\<lambda>sc. player sc @ '';'') scs)"

definition sample_options :: GameOptions where
  "sample_options = \<lparr>clonedGamedId = None, optionsText = ''{}''\<rparr>"

definition sample_scores :: "Score list" where
  "sample_scores = [\<lparr>player = ''p1'', playerScore = 50\<rparr>, \<lparr>player = ''p2'', playerScore = 42\<rparr>]"

section \<open>Properties\<close>

subsection \<open>The state after a statement is sent or a line is logged\<close>

lemma issue_fields [simp]:
  "games (issue q s) = games s" "game_results (issue q s) = game_results s"
  "issued (issue q s) = issued s @ [q]" "console (issue q s) = console s"
  by (simp_all add: issue_def)

lemma log_line_fields [simp]:
  "games (log_line l s) = games s" "game_results (log_line l s) = game_results s"
  "issued (log_line l s) = issued s" "console (log_line l s) = console s @ [l]"
  by (simp_all add: log_line_def)

subsection \<open>getPlayerCount on a game without origin row\<close>

text \<open>
  Claim C10. For a game identifier that has no row with \<open>save_id = 0\<close>, and a query that
  executes, \<open>getPlayerCount\<close> calls its callback with \<open>(undefined, undefined)\<close>: no error,
  and no player count, so a missing game cannot be told from a missing count.
\<close>

theorem getPlayerCount_no_origin_row:
  assumes "\<not> (\<exists>r \<in> set (games s). game_id r = g \<and> save_id r = 0)"
  shows "fst (getPlayerCount None g s) = (None, None)"
proof -
  from assms have "filter (\<lambda>r. save_id r = 0 \<and> game_id r = g) (games s) = []"
    by (auto simp: filter_empty_conv)
  then have "select_players g (games s) = []"
    by (simp add: select_players_def)
  then show ?thesis
    by (simp add: getPlayerCount_def)
qed

theorem getPlayerCount_no_origin_row_witness:
  "fst (getPlayerCount None ''g1''
      (sample_pg [sample_row ''g1'' 1 ''running'' 5, sample_row ''g2'' 0 ''running'' 6]))
   = (None, None)"
  using getPlayerCount_no_origin_row
    [of "sample_pg [sample_row ''g1'' 1 ''running'' 5, sample_row ''g2'' 0 ''running'' 6]" "''g1''"]
  by (simp add: sample_pg_def sample_row_def)

subsection \<open>saveGame and the caller's version counter\<close>

text \<open>
  Claim C6. Whatever the game object and the backend's answer, \<open>saveGame\<close> leaves
  \<open>game.lastSaveId\<close> greater by exactly 1 when the upsert executes, and unchanged when the
  query fails.
\<close>

theorem saveGame_lastSaveId:
  "lastSaveId (fst (snd (saveGame toJSON fault now theGame s))) =
     (if fault = None then lastSaveId theGame + 1 else lastSaveId theGame)"
  by (cases fault) (simp_all add: saveGame_def)

theorem saveGame_lastSaveId_witness:
  "lastSaveId (fst (snd (saveGame sample_toJSON None 7 (sample_game ''g1'' 4) (sample_pg [])))) = 5
   \<and> lastSaveId (fst (snd (saveGame sample_toJSON (Some (PgError ''timeout'')) 7
        (sample_game ''g1'' 4) (sample_pg [])))) = 4"
  using saveGame_lastSaveId [of sample_toJSON None 7 "sample_game ''g1'' 4" "sample_pg []"]
    saveGame_lastSaveId [of sample_toJSON "Some (PgError ''timeout'')" 7
      "sample_game ''g1'' 4" "sample_pg []"]
  by (simp add: sample_game_def)

subsection \<open>Failed writes\<close>

text \<open>
  Claim C4, as stated: when the backend query of \<open>saveGame\<close>, \<open>deleteGameNbrSaves\<close> or
  \<open>purgeUnfinishedGames\<close> fails, the operation's result is that failure. It is not: with
  a failing backend the promise of \<open>saveGame\<close> is fulfilled and the two others return
  without an exception.
\<close>

theorem write_failure_swallowed_counterexample:
  "fst (saveGame sample_toJSON (Some (PgError ''connection terminated'')) 7
          (sample_game ''g1'' 4) (sample_pg [])) = Inr ()
   \<and> fst (deleteGameNbrSaves (Some (PgError ''connection terminated'')) ''g1'' 1 (sample_pg []))
       = None
   \<and> fst (purgeUnfinishedGames (Some (PgError ''connection terminated'')) 7 None None
          (sample_pg [])) = None"
  by (simp add: saveGame_def deleteGameNbrSaves_def purgeUnfinishedGames_def)

text \<open>
  Claim C4, amended: when the backend query fails, each of the three operations logs the
  error (\<open>saveGame\<close> with \<open>console.error\<close> and its name, the two others with
  \<open>console.warn\<close> and the error's message) and completes normally; both relations and
  the game object are as before.
\<close>

theorem write_failure_logged_not_raised:
  "saveGame toJSON (Some err) now theGame s =
     (Inr (), theGame,
      s\<lparr>issued := issued s @ [UpsertGame (id' theGame) (lastSaveId theGame)],
        console := console s @ [ConsoleError [''PostgreSQL:saveGame''] err]\<rparr>)
   \<and> (0 < k \<longrightarrow> deleteGameNbrSaves (Some err) g k s =
     (None, s\<lparr>issued := issued s @ [DeleteLastSaves g k],
              console := console s @ [ConsoleWarn (message err)]\<rparr>))
   \<and> purgeUnfinishedGames (Some err) now env arg s =
     (None, s\<lparr>issued := issued s @ [DeleteOlderThan (purge_days env arg)],
              console := console s @ [ConsoleWarn (message err)]\<rparr>)"
  by (simp add: saveGame_def deleteGameNbrSaves_def purgeUnfinishedGames_def issue_def
      log_line_def)

theorem write_failure_logged_not_raised_witness:
  "saveGame sample_toJSON (Some (PgError ''timeout'')) 7 (sample_game ''g1'' 4) (sample_pg []) =
     (Inr (), sample_game ''g1'' 4,
      \<lparr>games = [], game_results = [], issued = [UpsertGame ''g1'' 4],
        console = [ConsoleError [''PostgreSQL:saveGame''] (PgError ''timeout'')]\<rparr>)
   \<and> deleteGameNbrSaves (Some (PgError ''timeout'')) ''g1'' 1 (sample_pg []) =
     (None, \<lparr>games = [], game_results = [], issued = [DeleteLastSaves ''g1'' 1],
             console = [ConsoleWarn ''timeout'']\<rparr>)
   \<and> purgeUnfinishedGames (Some (PgError ''timeout'')) 7 None None (sample_pg []) =
     (None, \<lparr>games = [], game_results = [],
             issued = [DeleteOlderThan (purge_days None None)],
             console = [ConsoleWarn ''timeout'']\<rparr>)"
  using write_failure_logged_not_raised
    [of sample_toJSON "PgError ''timeout''" 7 "sample_game ''g1'' 4" "sample_pg []" 1 "''g1''"
      None None]
  by (simp add: sample_pg_def sample_game_def)

subsection \<open>The default number of days\<close>

lemma purge_days_absent: "purge_days None None = 10"
  by (simp add: purge_days_def default_maxGameDays_def parseInt_def)

subsection \<open>Saving the same version twice\<close>

lemma filter_key_unique:
  "distinct (map f xs) \<Longrightarrow> k \<in> set (map f xs) \<Longrightarrow> \<exists>x. filter (\<lambda>y. f y = k) xs = [x]"
proof (induction xs)
  case Nil
  then show ?case by simp
next
  case (Cons a xs)
  show ?case
  proof (cases "f a = k")
    case True
    with Cons.prems have "k \<notin> f ` set xs" by auto
    then have "filter (\<lambda>y. f y = k) xs = []"
      by (auto simp: filter_empty_conv)
    with True show ?thesis by simp
  next
    case False
    with Cons show ?thesis by auto
  qed
qed

lemma overwrite_keys:
  "map (\<lambda>r. (game_id r, save_id r))
     (map (\<lambda>r. if game_id r = g \<and> save_id r = v then r\<lparr>game := doc\<rparr> else r) rows)
   = map (\<lambda>r. (game_id r, save_id r)) rows"
  by (induction rows) auto

lemma upsert_game_pk:
  "games_pk rows \<Longrightarrow> games_pk (upsert_game now g v doc n rows)"
  unfolding games_pk_def upsert_game_def
  by (simp only: overwrite_keys split: if_split) auto

lemma upsert_game_row:
  assumes "games_pk rows"
  shows "\<exists>r. filter (\<lambda>r. game_id r = g \<and> save_id r = v) (upsert_game now g v doc n rows) = [r]
             \<and> game r = doc"
proof (cases "(g, v) \<in> set (map (\<lambda>r. (game_id r, save_id r)) rows)")
  case True
  from filter_key_unique [OF assms [unfolded games_pk_def] True]
  obtain x where x: "filter (\<lambda>y. (game_id y, save_id y) = (g, v)) rows = [x]" ..
  have "filter (\<lambda>r. game_id r = g \<and> save_id r = v)
          (map (\<lambda>r. if game_id r = g \<and> save_id r = v then r\<lparr>game := doc\<rparr> else r) rows)
        = map (\<lambda>r. r\<lparr>game := doc\<rparr>) (filter (\<lambda>y. (game_id y, save_id y) = (g, v)) rows)"
    by (induction rows) auto
  with x True show ?thesis
    by (simp add: upsert_game_def)
next
  case False
  then have "filter (\<lambda>r. game_id r = g \<and> save_id r = v) rows = []"
    by (auto simp: filter_empty_conv)
  with False show ?thesis
    by (simp add: upsert_game_def)
qed

lemma upsert_game_again:
  "upsert_game now' g v doc n' (upsert_game now g v doc n rows) = upsert_game now g v doc n rows"
proof (cases "(g, v) \<in> set (map (\<lambda>r. (game_id r, save_id r)) rows)")
  case True
  let ?upd = "\<lambda>r. if game_id r = g \<and> save_id r = v then r\<lparr>game := doc\<rparr> else r"
  have first: "upsert_game now g v doc n rows = map ?upd rows"
    using True by (simp add: upsert_game_def)
  have "(g, v) \<in> set (map (\<lambda>r. (game_id r, save_id r)) (map ?upd rows))"
    using True by (simp only: overwrite_keys)
  then have "upsert_game now' g v doc n' (map ?upd rows) = map ?upd (map ?upd rows)"
    by (simp add: upsert_game_def)
  also have "\<dots> = map ?upd rows"
    by (induction rows) auto
  finally show ?thesis
    by (simp only: first)
next
  case False
  then have "map (\<lambda>r. if game_id r = g \<and> save_id r = v then r\<lparr>game := doc\<rparr> else r) rows = rows"
    by (intro map_idI) auto
  with False show ?thesis
    by (simp add: upsert_game_def)
qed

text \<open>
  Claim C9. Two calls of \<open>saveGame\<close> with the same identifier, version, document and
  players, both executed by the backend, leave exactly one row of \<open>games\<close> for that
  identifier and version, and its document is the one saved: the second call overwrites
  in place (it changes nothing), and the primary key still holds.
\<close>

theorem saveGame_twice_one_row:
  assumes "games_pk (games s)"
    and "s1 = snd (snd (saveGame toJSON None now theGame s))"
    and "s2 = snd (snd (saveGame toJSON None now' theGame s1))"
  shows "(\<exists>r. filter (\<lambda>r. game_id r = id' theGame \<and> save_id r = lastSaveId theGame) (games s2) = [r]
            \<and> game r = toJSON theGame)
         \<and> games s2 = games s1 \<and> games_pk (games s2)"
proof -
  have g1: "games s1 = upsert_game now (id' theGame) (lastSaveId theGame) (toJSON theGame)
      (int (length (getPlayers theGame))) (games s)"
    using assms(2) by (simp add: saveGame_def)
  have g2: "games s2 = upsert_game now' (id' theGame) (lastSaveId theGame) (toJSON theGame)
      (int (length (getPlayers theGame))) (games s1)"
    using assms(3) by (simp add: saveGame_def)
  have same: "games s2 = games s1"
    unfolding g2 g1 by (rule upsert_game_again)
  moreover have "games_pk (games s1)"
    unfolding g1 using assms(1) by (rule upsert_game_pk)
  moreover have "\<exists>r. filter (\<lambda>r. game_id r = id' theGame \<and> save_id r = lastSaveId theGame) (games s1) = [r]
            \<and> game r = toJSON theGame"
    unfolding g1 using assms(1) by (rule upsert_game_row)
  ultimately show ?thesis by simp
qed

theorem saveGame_twice_one_row_witness:
  "games_pk (games (sample_pg []))
   \<and> games (snd (snd (saveGame sample_toJSON None 8 (sample_game ''g1'' 0)
        (snd (snd (saveGame sample_toJSON None 7 (sample_game ''g1'' 0) (sample_pg []))))))) =
       [\<lparr>game_id = ''g1'', players = 2, save_id = 0, game = ''{id:g1}'',
         status = ''running'', created_time = 7\<rparr>]"
  using saveGame_twice_one_row [where s = "sample_pg []" and toJSON = sample_toJSON
      and now = 7 and now' = 8 and theGame = "sample_game ''g1'' 0", OF _ refl refl]
  by (simp add: saveGame_def upsert_game_def games_pk_def sample_pg_def sample_game_def
      sample_toJSON_def)

subsection \<open>Recording a result twice\<close>

lemma saveGameResults_returns:
  "fst (saveGameResults stringify fault g n gens opts scs s) = Inr ()"
  by (simp add: saveGameResults_def Let_def split: sum.split)

lemma saveGameResults_existing_key:
  assumes "g \<in> set (map r_game_id (game_results s))"
  shows "\<exists>e. snd (saveGameResults stringify fault g n gens opts scs s) =
           (Some e, s\<lparr>issued := issued s @ [InsertGameResult g],
                       console := console s @ [ConsoleError [''PostgreSQL:saveGameResults''] e]\<rparr>)"
  using assms
  by (cases fault) (simp_all add: saveGameResults_def insert_result_def Let_def issue_def
      log_line_def)

lemma saveGameResults_first:
  assumes "saveGameResults stringify None g n gens opts scs s = (Inr (), None, s1)"
  shows "g \<notin> set (map r_game_id (game_results s))"
    and "game_results s1 = game_results s @
      [\<lparr>r_game_id = g, r_seed_game_id = clonedGamedId opts, r_players = n,
        r_generations = gens, r_game_options = optionsText opts, r_scores = stringify scs\<rparr>]"
  using assms
  by (auto simp: saveGameResults_def insert_result_def Let_def split: if_splits)

text \<open>
  Claim C5, as stated: a second call of \<open>saveGameResults\<close> with a game identifier that
  already has a row fails, and the failure is propagated to the caller. It is not: the
  call has returned to its caller before the backend refuses the row, so the caller
  receives a normal return; the error is thrown inside the query callback.
\<close>

theorem saveGameResults_duplicate_returns_counterexample:
  "saveGameResults sample_stringify None ''g1'' 2 14 sample_options sample_scores (sample_pg [])
     = (Inr (), None, \<lparr>games = [],
          game_results = [\<lparr>r_game_id = ''g1'', r_seed_game_id = None, r_players = 2,
             r_generations = 14, r_game_options = ''{}'', r_scores = ''p1;p2;''\<rparr>],
          issued = [InsertGameResult ''g1''], console = []\<rparr>)
   \<and> fst (saveGameResults sample_stringify None ''g1'' 2 14 sample_options sample_scores
       \<lparr>games = [],
          game_results = [\<lparr>r_game_id = ''g1'', r_seed_game_id = None, r_players = 2,
             r_generations = 14, r_game_options = ''{}'', r_scores = ''p1;p2;''\<rparr>],
          issued = [InsertGameResult ''g1''], console = []\<rparr>) = Inr ()
   \<and> fst (snd (saveGameResults sample_stringify None ''g1'' 2 14 sample_options sample_scores
       \<lparr>games = [],
          game_results = [\<lparr>r_game_id = ''g1'', r_seed_game_id = None, r_players = 2,
             r_generations = 14, r_game_options = ''{}'', r_scores = ''p1;p2;''\<rparr>],
          issued = [InsertGameResult ''g1''], console = []\<rparr>)) = Some duplicate_key"
  by (simp add: saveGameResults_def insert_result_def issue_def sample_pg_def
      sample_options_def sample_scores_def sample_stringify_def)

text \<open>
  Claim C5, amended: after a call of \<open>saveGameResults\<close> has stored a row for a game
  identifier, the insert of every further call with that identifier fails, whatever its
  other arguments and the backend's answer (on an executed query, with the backend's
  duplicate-key error); the call itself returns normally to its caller, and the error is
  logged and thrown inside the query callback, not swallowed there; \<open>game_results\<close> is
  left as it was, with exactly one row for the identifier, holding the scores of the
  first call as they were given.
\<close>

theorem saveGameResults_duplicate_thrown_in_callback:
  assumes "saveGameResults stringify None g n gens opts scs s = (Inr (), None, s1)"
  shows "fst (saveGameResults stringify fault g n' gens' opts' scs' s1) = Inr ()
       \<and> (\<exists>e. snd (saveGameResults stringify fault g n' gens' opts' scs' s1) =
             (Some e, s1\<lparr>issued := issued s1 @ [InsertGameResult g],
                console := console s1 @ [ConsoleError [''PostgreSQL:saveGameResults''] e]\<rparr>))
       \<and> fst (snd (saveGameResults stringify None g n' gens' opts' scs' s1)) = Some duplicate_key
       \<and> game_results (snd (snd (saveGameResults stringify fault g n' gens' opts' scs' s1)))
           = game_results s1
       \<and> filter (\<lambda>r. r_game_id r = g) (game_results s1) =
           [\<lparr>r_game_id = g, r_seed_game_id = clonedGamedId opts, r_players = n,
             r_generations = gens, r_game_options = optionsText opts,
             r_scores = stringify scs\<rparr>]"
proof -
  note first = saveGameResults_first [OF assms]
  have key: "g \<in> set (map r_game_id (game_results s1))"
    by (simp add: first(2))
  have "filter (\<lambda>r. r_game_id r = g) (game_results s) = []"
    using first(1) by (auto simp: filter_empty_conv)
  then have one: "filter (\<lambda>r. r_game_id r = g) (game_results s1) =
           [\<lparr>r_game_id = g, r_seed_game_id = clonedGamedId opts, r_players = n,
             r_generations = gens, r_game_options = optionsText opts,
             r_scores = stringify scs\<rparr>]"
    by (simp add: first(2))
  have dup: "fst (snd (saveGameResults stringify None g n' gens' opts' scs' s1)) =
      Some duplicate_key"
    using key by (simp add: saveGameResults_def insert_result_def Let_def)
  from saveGameResults_existing_key [OF key, of stringify fault n' gens' opts' scs']
  obtain e where e: "snd (saveGameResults stringify fault g n' gens' opts' scs' s1) =
             (Some e, s1\<lparr>issued := issued s1 @ [InsertGameResult g],
                console := console s1 @ [ConsoleError [''PostgreSQL:saveGameResults''] e]\<rparr>)"
    by blast
  then have same: "game_results (snd (snd (saveGameResults stringify fault g n' gens' opts' scs' s1)))
           = game_results s1"
    by simp
  from saveGameResults_returns e same one dup show ?thesis
    by blast
qed

theorem saveGameResults_duplicate_thrown_in_callback_witness:
  "saveGameResults sample_stringify None ''g1'' 2 14 sample_options sample_scores (sample_pg [])
     = (Inr (), None, \<lparr>games = [],
          game_results = [\<lparr>r_game_id = ''g1'', r_seed_game_id = None, r_players = 2,
             r_generations = 14, r_game_options = ''{}'', r_scores = ''p1;p2;''\<rparr>],
          issued = [InsertGameResult ''g1''], console = []\<rparr>)
   \<and> saveGameResults sample_stringify None ''g1'' 2 14 sample_options (rev sample_scores)
       \<lparr>games = [],
          game_results = [\<lparr>r_game_id = ''g1'', r_seed_game_id = None, r_players = 2,
             r_generations = 14, r_game_options = ''{}'', r_scores = ''p1;p2;''\<rparr>],
          issued = [InsertGameResult ''g1''], console = []\<rparr>
     = (Inr (), Some duplicate_key, \<lparr>games = [],
          game_results = [\<lparr>r_game_id = ''g1'', r_seed_game_id = None, r_players = 2,
             r_generations = 14, r_game_options = ''{}'', r_scores = ''p1;p2;''\<rparr>],
          issued = [InsertGameResult ''g1'', InsertGameResult ''g1''],
          console = [ConsoleError [''PostgreSQL:saveGameResults''] duplicate_key]\<rparr>)"
proof -
  have first: "saveGameResults sample_stringify None ''g1'' 2 14 sample_options sample_scores
      (sample_pg [])
     = (Inr (), None, \<lparr>games = [],
          game_results = [\<lparr>r_game_id = ''g1'', r_seed_game_id = None, r_players = 2,
             r_generations = 14, r_game_options = ''{}'', r_scores = ''p1;p2;''\<rparr>],
          issued = [InsertGameResult ''g1''], console = []\<rparr>)"
    by (simp add: saveGameResults_def insert_result_def issue_def sample_pg_def
        sample_options_def sample_scores_def sample_stringify_def)
  from saveGameResults_duplicate_thrown_in_callback
    [OF first, of None 2 14 sample_options "rev sample_scores"] first
  show ?thesis
    by (auto simp: prod_eq_iff)
qed

subsection \<open>The order of the steps of cleanSaves\<close>

lemma cleanSaves_run:
  "cleanSaves f0 f1 f2 f3 now env g s =
     (case f0 of
        Some e \<Rightarrow> (Some e, log_line (ConsoleError [''PostgreSQL'', ''cleanSaves0''] e)
                      (issue (SelectMaxSaveId g) s))
      | None \<Rightarrow>
          (let h = select_max_save_id g (games s);
               s3 = issue (DeleteIntermediateSaves g h) (issue (SelectMaxSaveId g) s) in
           case f1 of
             Some e \<Rightarrow> (Some e, log_line (ConsoleError [''PostgreSQL'', ''cleanSaves1''] e) s3)
           | None \<Rightarrow>
               (let s6 = issue (UpdateStatusFinished g)
                           (s3\<lparr>games := delete_intermediate g h (games s)\<rparr>) in
                case f2 of
                  Some e \<Rightarrow>
                    (Some e, log_line (ConsoleError [''PostgreSQL'', ''cleanSaves2''] e) s6)
                | None \<Rightarrow>
                    purgeUnfinishedGames f3 now env None
                      (s6\<lparr>games := update_finished g (delete_intermediate g h (games s))\<rparr>))))"
proof -
  have h: "select_max_save_id g (games s) \<noteq> Undefined"
    by (simp add: select_max_save_id_def split: list.split)
  show ?thesis
    using h
    by (cases f0; cases f1; cases f2)
      (simp_all add: cleanSaves_def getMaxSaveId_def throwIf_def Let_def)
qed

lemma purge_issued:
  "issued (snd (purgeUnfinishedGames f now env arg s)) =
     issued s @ [DeleteOlderThan (purge_days env arg)]"
  by (cases f) (simp_all add: purgeUnfinishedGames_def Let_def)

lemma cleanSaves_issued:
  "issued_since s (snd (cleanSaves f0 f1 f2 f3 now env g s)) =
     SelectMaxSaveId g #
     (if f0 \<noteq> None then []
      else DeleteIntermediateSaves g (select_max_save_id g (games s)) #
        (if f1 \<noteq> None then []
         else UpdateStatusFinished g #
           (if f2 \<noteq> None then [] else [DeleteOlderThan (purge_days env None)])))"
  by (cases f0; cases f1; cases f2)
    (simp_all add: cleanSaves_run issued_since_def Let_def purge_issued)

text \<open>
  Claim C3. If the trimming delete of \<open>cleanSaves\<close> fails, the error is thrown, the
  update that marks the game's rows finished is not sent (the rows of \<open>games\<close> are
  unchanged) and the purge is not triggered. In every run, the update is sent only
  after the trim succeeded, and the purge only after the update succeeded.
\<close>

theorem cleanSaves_step_order:
  "(f0 = None \<and> f1 = Some e \<longrightarrow>
      fst (cleanSaves f0 f1 f2 f3 now env g s) = Some e
      \<and> games (snd (cleanSaves f0 f1 f2 f3 now env g s)) = games s
      \<and> UpdateStatusFinished g \<notin> set (issued_since s (snd (cleanSaves f0 f1 f2 f3 now env g s)))
      \<and> DeleteOlderThan d \<notin> set (issued_since s (snd (cleanSaves f0 f1 f2 f3 now env g s))))
   \<and> (UpdateStatusFinished g \<in> set (issued_since s (snd (cleanSaves f0 f1 f2 f3 now env g s)))
        \<longrightarrow> f0 = None \<and> f1 = None)
   \<and> (DeleteOlderThan d \<in> set (issued_since s (snd (cleanSaves f0 f1 f2 f3 now env g s)))
        \<longrightarrow> f0 = None \<and> f1 = None \<and> f2 = None)"
proof -
  have a: "f0 = None \<Longrightarrow> f1 = Some e \<Longrightarrow>
      fst (cleanSaves f0 f1 f2 f3 now env g s) = Some e
      \<and> games (snd (cleanSaves f0 f1 f2 f3 now env g s)) = games s"
    by (simp add: cleanSaves_run Let_def)
  show ?thesis
    using a by (auto simp: cleanSaves_issued split: if_splits)
qed

theorem cleanSaves_step_order_witness:
  "fst (cleanSaves None (Some (PgError ''deadlock'')) None None 100 None ''g1''
      (sample_pg [sample_row ''g1'' 0 ''running'' 90, sample_row ''g1'' 1 ''running'' 91]))
     = Some (PgError ''deadlock'')
   \<and> games (snd (cleanSaves None (Some (PgError ''deadlock'')) None None 100 None ''g1''
      (sample_pg [sample_row ''g1'' 0 ''running'' 90, sample_row ''g1'' 1 ''running'' 91])))
     = [sample_row ''g1'' 0 ''running'' 90, sample_row ''g1'' 1 ''running'' 91]
   \<and> issued (snd (cleanSaves None (Some (PgError ''deadlock'')) None None 100 None ''g1''
      (sample_pg [sample_row ''g1'' 0 ''running'' 90, sample_row ''g1'' 1 ''running'' 91])))
     = [SelectMaxSaveId ''g1'', DeleteIntermediateSaves ''g1'' (Number 1)]
   \<and> issued (snd (cleanSaves None None None None 100 None ''g1''
      (sample_pg [sample_row ''g1'' 0 ''running'' 90, sample_row ''g1'' 1 ''running'' 91])))
     = [SelectMaxSaveId ''g1'', DeleteIntermediateSaves ''g1'' (Number 1),
        UpdateStatusFinished ''g1'', DeleteOlderThan 10]"
  using cleanSaves_step_order [of None "Some (PgError ''deadlock'')" "PgError ''deadlock''"
      None None 100 None "''g1''"
      "sample_pg [sample_row ''g1'' 0 ''running'' 90, sample_row ''g1'' 1 ''running'' 91]" 10]
    cleanSaves_step_order [of None None "PgError ''deadlock''"
      None None 100 None "''g1''"
      "sample_pg [sample_row ''g1'' 0 ''running'' 90, sample_row ''g1'' 1 ''running'' 91]" 10]
  by (simp add: cleanSaves_run Let_def select_max_save_id_def rows_of_def purge_issued
      purge_days_absent sample_pg_def sample_row_def)

subsection \<open>What cleanSaves leaves of a game\<close>

lemma rows_of_update_finished:
  "rows_of g (update_finished g rows) = map (\<lambda>r. r\<lparr>status := ''finished''\<rparr>) (rows_of g rows)"
  by (induction rows) (simp_all add: rows_of_def update_finished_def)

lemma rows_of_delete_intermediate:
  "rows_of g (delete_intermediate g (Number h) rows) =
     filter (\<lambda>r. \<not> (save_id r < h \<and> save_id r > 0)) (rows_of g rows)"
  by (induction rows) (simp_all add: rows_of_def delete_intermediate_def)

lemma rows_of_delete_older_than:
  "rows_of g (delete_older_than now d rows) =
     filter (\<lambda>r. \<not> created_time r < now - usecs_per_day * d) (rows_of g rows)"
  by (induction rows) (simp_all add: rows_of_def delete_older_than_def)

lemma select_max_save_id_Number:
  assumes "rows_of g rows \<noteq> []"
  shows "select_max_save_id g rows = Number (Max (set (map save_id (rows_of g rows))))"
  using assms by (cases "rows_of g rows") (simp_all add: select_max_save_id_def)

lemma cleanSaves_rows:
  assumes recent: "\<forall>r \<in> set (rows_of g (games s)).
      \<not> created_time r < now - usecs_per_day * purge_days env None"
    and max: "select_max_save_id g (games s) = Number h"
  shows "rows_of g (games (snd (cleanSaves None None None fp now env g s))) =
     map (\<lambda>r. r\<lparr>status := ''finished''\<rparr>)
       (filter (\<lambda>r. \<not> (save_id r < h \<and> save_id r > 0)) (rows_of g (games s)))"
proof -
  let ?trimmed = "update_finished g (delete_intermediate g (Number h) (games s))"
  have trimmed: "rows_of g ?trimmed =
     map (\<lambda>r. r\<lparr>status := ''finished''\<rparr>)
       (filter (\<lambda>r. \<not> (save_id r < h \<and> save_id r > 0)) (rows_of g (games s)))"
    by (simp add: rows_of_update_finished rows_of_delete_intermediate)
  have kept: "filter (\<lambda>r. \<not> created_time r < now - usecs_per_day * purge_days env None)
      (rows_of g ?trimmed) = rows_of g ?trimmed"
    unfolding trimmed using recent by (auto simp: filter_id_conv)
  have "games (snd (cleanSaves None None None fp now env g s)) =
      (case fp of Some _ \<Rightarrow> ?trimmed
       | None \<Rightarrow> delete_older_than now (purge_days env None) ?trimmed)"
    by (cases fp) (simp_all add: cleanSaves_run max Let_def purgeUnfinishedGames_def)
  then have "rows_of g (games (snd (cleanSaves None None None fp now env g s))) =
      rows_of g ?trimmed"
    using kept by (cases fp) (simp_all add: rows_of_delete_older_than)
  with trimmed show ?thesis by simp
qed

text \<open>
  Claim C2, as stated: for every game with at least one row, after a successful
  \<open>cleanSaves\<close> the versions listed by \<open>getSaveIds\<close> are exactly 0 and the highest. They
  are not when the game has no row of version 0: a game whose rows are versions 2 and 3
  is left with version 3 alone.
\<close>

theorem cleanSaves_without_origin_counterexample:
  "select_max_save_id ''g1''
      [sample_row ''g1'' 2 ''running'' 98, sample_row ''g1'' 3 ''running'' 99] = Number 3
   \<and> fst (cleanSaves None None None None 100 None ''g1''
        (sample_pg [sample_row ''g1'' 2 ''running'' 98, sample_row ''g1'' 3 ''running'' 99]))
      = None
   \<and> fst (getSaveIds None ''g1'' (snd (cleanSaves None None None None 100 None ''g1''
        (sample_pg [sample_row ''g1'' 2 ''running'' 98, sample_row ''g1'' 3 ''running'' 99]))))
      = Inr [3]"
  by (simp add: cleanSaves_run Let_def select_max_save_id_def rows_of_def
      purgeUnfinishedGames_def purge_days_absent delete_older_than_def usecs_per_day_def
      delete_intermediate_def update_finished_def getSaveIds_def select_save_ids_def
      sample_pg_def sample_row_def)

text \<open>
  Claim C2, amended: for every game \<open>g\<close> with at least one row, none of them older than
  the purge threshold, after \<open>cleanSaves(g)\<close> whose first three queries execute, the
  versions listed by \<open>getSaveIds(g)\<close> are exactly those of the versions before that are
  at most 0 or the highest \<open>h\<close>; they are exactly 0 and \<open>h\<close> when the game had a row of
  version 0 and no negative version; and every remaining row of \<open>g\<close> has status
  \<open>finished\<close>.
\<close>

theorem cleanSaves_keeps_first_and_last:
  assumes rows: "rows_of g (games s) \<noteq> []"
    and recent: "\<forall>r \<in> set (rows_of g (games s)).
      \<not> created_time r < now - usecs_per_day * purge_days env None"
    and s': "s' = snd (cleanSaves None None None fp now env g s)"
  shows "\<exists>h ids. select_max_save_id g (games s) = Number h
      \<and> fst (cleanSaves None None None fp now env g s) = None
      \<and> fst (getSaveIds None g s') = Inr ids
      \<and> set ids = {v \<in> set (select_save_ids g (games s)). v \<le> 0 \<or> v = h}
      \<and> (0 \<in> set (select_save_ids g (games s))
           \<and> (\<forall>v \<in> set (select_save_ids g (games s)). 0 \<le> v) \<longrightarrow> set ids = {0, h})
      \<and> (\<forall>r \<in> set (rows_of g (games s')). status r = ''finished'')"
proof -
  let ?vs = "set (map save_id (rows_of g (games s)))"
  let ?h = "Max ?vs"
  have max: "select_max_save_id g (games s) = Number ?h"
    using rows by (rule select_max_save_id_Number)
  have fin: "finite ?vs" and ne: "?vs \<noteq> {}"
    using rows by simp_all
  have le: "v \<le> ?h" if "v \<in> ?vs" for v
    using fin that by (rule Max_ge)
  have h_in: "?h \<in> ?vs"
    using fin ne by (rule Max_in)
  note after = cleanSaves_rows [OF recent max, of fp]
  have ok: "fst (cleanSaves None None None fp now env g s) = None"
    by (cases fp) (simp_all add: cleanSaves_run Let_def purgeUnfinishedGames_def)
  have keep: "(\<not> (save_id r < ?h \<and> save_id r > 0)) = (save_id r \<le> 0 \<or> save_id r = ?h)"
    if "r \<in> set (rows_of g (games s))" for r
  proof -
    from that have "save_id r \<in> ?vs" by simp
    then have "save_id r \<le> ?h" by (rule le)
    then show ?thesis by linarith
  qed
  have "set (select_save_ids g (games s')) =
      save_id ` {r \<in> set (rows_of g (games s)). \<not> (save_id r < ?h \<and> save_id r > 0)}"
    unfolding s' select_save_ids_def after by (simp add: image_image)
  also have "\<dots> = save_id ` {r \<in> set (rows_of g (games s)). save_id r \<le> 0 \<or> save_id r = ?h}"
    using keep by (intro arg_cong [where f = "image save_id"]) blast
  also have "\<dots> = {v \<in> ?vs. v \<le> 0 \<or> v = ?h}"
    by auto
  finally have ids: "set (select_save_ids g (games s')) = {v \<in> ?vs. v \<le> 0 \<or> v = ?h}" .
  have both: "{v \<in> ?vs. v \<le> 0 \<or> v = ?h} = {0, ?h}"
    if "0 \<in> ?vs" "\<forall>v \<in> ?vs. 0 \<le> v"
    using that h_in by force
  have st: "\<forall>r \<in> set (rows_of g (games s')). status r = ''finished''"
    unfolding s' after by simp
  have get: "fst (getSaveIds None g s') = Inr (select_save_ids g (games s'))"
    by (simp add: getSaveIds_def)
  have vs: "set (select_save_ids g (games s)) = ?vs"
    by (simp add: select_save_ids_def)
  show ?thesis
    using max ok get ids both st unfolding vs by blast
qed

theorem cleanSaves_keeps_first_and_last_witness:
  "rows_of ''g2'' [sample_row ''g2'' 0 ''running'' 97, sample_row ''g2'' 1 ''running'' 98,
        sample_row ''g2'' 2 ''running'' 99] \<noteq> []
   \<and> fst (getSaveIds None ''g2'' (snd (cleanSaves None None None None 100 None ''g2''
        (sample_pg [sample_row ''g2'' 0 ''running'' 97, sample_row ''g2'' 1 ''running'' 98,
           sample_row ''g2'' 2 ''running'' 99]))))
      = Inr [0, 2]
   \<and> map status (rows_of ''g2'' (games (snd (cleanSaves None None None None 100 None ''g2''
        (sample_pg [sample_row ''g2'' 0 ''running'' 97, sample_row ''g2'' 1 ''running'' 98,
           sample_row ''g2'' 2 ''running'' 99])))))
      = [''finished'', ''finished'']"
  using cleanSaves_keeps_first_and_last [where g = "''g2''" and now = 100 and env = None
      and fp = None
      and s = "sample_pg [sample_row ''g2'' 0 ''running'' 97, sample_row ''g2'' 1 ''running'' 98,
           sample_row ''g2'' 2 ''running'' 99]", OF _ _ refl]
  by (simp add: cleanSaves_run Let_def select_max_save_id_def rows_of_def
      purgeUnfinishedGames_def purge_days_absent delete_older_than_def usecs_per_day_def
      delete_intermediate_def update_finished_def getSaveIds_def select_save_ids_def
      sample_pg_def sample_row_def)

subsection \<open>The games listed by getGames\<close>

lemma set_running_max:
  "set (running_max rows) =
     (\<lambda>g. (g, Max (save_id ` {r \<in> set rows. status r = ''running'' \<and> game_id r = g}))) `
       game_id ` {r \<in> set rows. status r = ''running''}"
proof -
  have "set (map save_id (rows_of g (filter (\<lambda>r. status r = ''running'') rows))) =
      save_id ` {r \<in> set rows. status r = ''running'' \<and> game_id r = g}" for g
    by (auto simp: rows_of_def)
  then show ?thesis
    by (simp add: running_max_def Let_def)
qed

lemma set_select_running_games:
  "set (select_running_games rows) =
     game_id ` {r \<in> set rows. \<exists>a \<in> set (running_max rows). game_id r = fst a \<and> save_id r = snd a}"
  by (auto simp: select_running_games_def)

lemma running_row_listed:
  assumes "r0 \<in> set rows" "status r0 = ''running''"
  shows "game_id r0 \<in> set (select_running_games rows)"
proof -
  let ?S = "{r \<in> set rows. status r = ''running'' \<and> game_id r = game_id r0}"
  have "finite (save_id ` ?S)" by simp
  moreover have "save_id ` ?S \<noteq> {}" using assms by auto
  ultimately have "Max (save_id ` ?S) \<in> save_id ` ?S" by (rule Max_in)
  then obtain r where r: "r \<in> ?S" "save_id r = Max (save_id ` ?S)" by auto
  have pair: "(game_id r0, Max (save_id ` ?S)) \<in> set (running_max rows)"
    unfolding set_running_max using assms by blast
  have "r \<in> {r \<in> set rows. \<exists>a \<in> set (running_max rows). game_id r = fst a \<and> save_id r = snd a}"
    using r pair by force
  then have "game_id r \<in> set (select_running_games rows)"
    unfolding set_select_running_games by (rule imageI)
  with r(1) show ?thesis by simp
qed

text \<open>
  Claim C1, as stated: the list of \<open>getGames\<close> never contains a game whose row of
  highest version has status \<open>finished\<close>. It does: the inner query takes the maximum
  over the running rows only, so a game with a running row of version 0 and a finished
  row of version 1 is listed.
\<close>

theorem getGames_stale_running_counterexample:
  "select_max_save_id ''g1''
      [sample_row ''g1'' 0 ''running'' 5, sample_row ''g1'' 1 ''finished'' 6] = Number 1
   \<and> map status (filter (\<lambda>r. game_id r = ''g1'' \<and> save_id r = 1)
        [sample_row ''g1'' 0 ''running'' 5, sample_row ''g1'' 1 ''finished'' 6]) = [''finished'']
   \<and> fst (getGames None
        (sample_pg [sample_row ''g1'' 0 ''running'' 5, sample_row ''g1'' 1 ''finished'' 6]))
      = Inr [''g1'']"
  by (simp add: select_max_save_id_def rows_of_def getGames_def select_running_games_def
      running_max_def sample_pg_def sample_row_def)

text \<open>
  Claim C1, amended: for every state, the list of \<open>getGames\<close> (when the query executes)
  contains exactly the identifiers of the games that have at least one row with status
  \<open>running\<close>; so it never contains a game all of whose rows are \<open>finished\<close>.
\<close>

theorem getGames_lists_games_with_running_row:
  "\<exists>ids. fst (getGames None s) = Inr ids
     \<and> set ids = game_id ` {r \<in> set (games s). status r = ''running''}"
proof -
  have "set (select_running_games (games s)) =
      game_id ` {r \<in> set (games s). status r = ''running''}"
  proof (intro set_eqI iffI)
    fix g
    assume "g \<in> set (select_running_games (games s))"
    then obtain r a where "r \<in> set (games s)" "a \<in> set (running_max (games s))"
      "game_id r = fst a" "g = game_id r"
      unfolding set_select_running_games by auto
    then show "g \<in> game_id ` {r \<in> set (games s). status r = ''running''}"
      unfolding set_running_max by auto
  next
    fix g
    assume "g \<in> game_id ` {r \<in> set (games s). status r = ''running''}"
    then obtain r0 where "r0 \<in> set (games s)" "status r0 = ''running''" "g = game_id r0"
      by auto
    then show "g \<in> set (select_running_games (games s))"
      by (simp add: running_row_listed)
  qed
  then show ?thesis
    by (simp add: getGames_def)
qed

theorem getGames_lists_games_with_running_row_witness:
  "fst (getGames None
        (sample_pg [sample_row ''g1'' 0 ''finished'' 5, sample_row ''g1'' 1 ''finished'' 6,
                    sample_row ''g2'' 0 ''running'' 7, sample_row ''g2'' 1 ''running'' 8]))
      = Inr [''g2'']
   \<and> game_id ` {r \<in> set (games
        (sample_pg [sample_row ''g1'' 0 ''finished'' 5, sample_row ''g1'' 1 ''finished'' 6,
                    sample_row ''g2'' 0 ''running'' 7, sample_row ''g2'' 1 ''running'' 8])).
          status r = ''running''} = {''g2''}"
proof -
  let ?s = "sample_pg [sample_row ''g1'' 0 ''finished'' 5, sample_row ''g1'' 1 ''finished'' 6,
                    sample_row ''g2'' 0 ''running'' 7, sample_row ''g2'' 1 ''running'' 8]"
  have run: "fst (getGames None ?s) = Inr [''g2'']"
    by code_simp
  from getGames_lists_games_with_running_row [of ?s]
  obtain ids where ids: "fst (getGames None ?s) = Inr ids"
    "set ids = game_id ` {r \<in> set (games ?s). status r = ''running''}"
    by blast
  from ids(1) run have "ids = [''g2'']" by simp
  with ids(2) run show ?thesis by simp
qed

subsection \<open>The number of days of the purge\<close>

lemma to_number_small: "n < 2 ^ 53 \<Longrightarrow> to_number n = Finite n"
  by (simp add: to_number_def)

lemma decimal_digit_range:
  "radix_digit 10 c = (48 \<le> (of_char c :: int) \<and> (of_char c :: int) \<le> 57)"
  by (auto simp: radix_digit_def digit_value_def Let_def)

lemma decimal_digit_not_other:
  assumes "radix_digit 10 c"
  shows "\<not> isWhiteSpace c" "c \<noteq> CHR ''+''" "c \<noteq> CHR ''-''" "c \<noteq> CHR ''x''" "c \<noteq> CHR ''X''"
  using assms by (auto simp: decimal_digit_range isWhiteSpace_def)

lemma skip_white_space:
  assumes "list_all isWhiteSpace ws" "body = [] \<or> \<not> isWhiteSpace (hd body)"
  shows "dropWhile isWhiteSpace (ws @ body) = body"
proof -
  have "dropWhile isWhiteSpace (ws @ body) = dropWhile isWhiteSpace body"
    using assms(1) by (intro dropWhile_append2) (simp add: list_all_iff)
  also have "\<dots> = body"
    using assms(2) by (simp add: dropWhile_eq_self_iff)
  finally show ?thesis .
qed

lemma decimal_run:
  assumes "ds \<noteq> []" "list_all (radix_digit 10) ds"
    and "rest = [] \<or> \<not> radix_digit 10 (hd rest)"
    and "\<not> (ds = ''0'' \<and> rest \<noteq> [] \<and> (hd rest = CHR ''x'' \<or> hd rest = CHR ''X''))"
  shows "take 2 (ds @ rest) \<noteq> ''0x''" "take 2 (ds @ rest) \<noteq> ''0X''"
    "takeWhile (radix_digit 10) (ds @ rest) = ds"
proof -
  have "takeWhile (radix_digit 10) (ds @ rest) = ds @ takeWhile (radix_digit 10) rest"
    using assms(2) by (intro takeWhile_append2) (simp add: list_all_iff)
  moreover have "takeWhile (radix_digit 10) rest = []"
    using assms(3) by (simp add: takeWhile_eq_Nil_iff)
  ultimately show "takeWhile (radix_digit 10) (ds @ rest) = ds" by simp
  obtain d ds' where ds: "ds = d # ds'"
    using assms(1) by (cases ds) auto
  show "take 2 (ds @ rest) \<noteq> ''0x''"
  proof (cases ds')
    case Nil
    with ds assms(4) show ?thesis
      by (cases rest) (auto simp: numeral_2_eq_2)
  next
    case (Cons d' ds'')
    with ds assms(2) have "radix_digit 10 d'" by simp
    then have "d' \<noteq> CHR ''x''" by (rule decimal_digit_not_other)
    with ds Cons show ?thesis by (simp add: numeral_2_eq_2)
  qed
  show "take 2 (ds @ rest) \<noteq> ''0X''"
  proof (cases ds')
    case Nil
    with ds assms(4) show ?thesis
      by (cases rest) (auto simp: numeral_2_eq_2)
  next
    case (Cons d' ds'')
    with ds assms(2) have "radix_digit 10 d'" by simp
    then have "d' \<noteq> CHR ''X''" by (rule decimal_digit_not_other)
    with ds Cons show ?thesis by (simp add: numeral_2_eq_2)
  qed
qed

lemma parseInt_eval:
  assumes "dropWhile isWhiteSpace v = S"
    and "S1 = (if S \<noteq> [] \<and> (hd S = CHR ''+'' \<or> hd S = CHR ''-'') then tl S else S)"
    and "take 2 S1 \<noteq> ''0x''" "take 2 S1 \<noteq> ''0X''"
    and "takeWhile (radix_digit 10) S1 = Z"
  shows "parseInt v =
     (if Z = [] then NaN
      else (case to_number (digits_value 10 Z) of
              Finite m \<Rightarrow> Finite (if S \<noteq> [] \<and> hd S = CHR ''-'' then - m else m)
            | x \<Rightarrow> x))"
  unfolding parseInt_def Let_def assms(1)
  unfolding assms(2) [symmetric]
  using assms(3,4,5) by simp

lemma parseInt_decimal:
  assumes ws: "list_all isWhiteSpace ws"
    and sg: "sg = [] \<or> sg = ''+'' \<or> sg = ''-''"
    and ds: "ds \<noteq> []" "list_all (radix_digit 10) ds"
    and rest: "rest = [] \<or> \<not> radix_digit 10 (hd rest)"
    and nohex: "\<not> (ds = ''0'' \<and> rest \<noteq> [] \<and> (hd rest = CHR ''x'' \<or> hd rest = CHR ''X''))"
    and small: "digits_value 10 ds < 2 ^ 53"
  shows "parseInt (ws @ sg @ ds @ rest) =
     Finite (if sg = ''-'' then - digits_value 10 ds else digits_value 10 ds)"
proof -
  note run = decimal_run [OF ds rest nohex]
  note num = to_number_small [OF small]
  obtain d ds' where dsc: "ds = d # ds'"
    using ds(1) by (cases ds) auto
  with ds(2) have d: "radix_digit 10 d" by simp
  note dn = decimal_digit_not_other [OF d]
  let ?S = "sg @ ds @ rest"
  have head: "?S \<noteq> []" "\<not> isWhiteSpace (hd ?S)"
    using sg dsc dn(1) by (auto simp: isWhiteSpace_def)
  then have skip: "dropWhile isWhiteSpace (ws @ ?S) = ?S"
    using ws by (intro skip_white_space) simp_all
  have unsigned: "ds @ rest =
      (if ?S \<noteq> [] \<and> (hd ?S = CHR ''+'' \<or> hd ?S = CHR ''-'') then tl ?S else ?S)"
    using sg dsc dn(2,3) by auto
  have neg: "(?S \<noteq> [] \<and> hd ?S = CHR ''-'') = (sg = ''-'')"
    using sg dsc dn(3) by auto
  have "parseInt (ws @ ?S) =
     (if ds = [] then NaN
      else (case to_number (digits_value 10 ds) of
              Finite m \<Rightarrow> Finite (if ?S \<noteq> [] \<and> hd ?S = CHR ''-'' then - m else m)
            | x \<Rightarrow> x))"
    using skip unsigned run by (rule parseInt_eval)
  then show ?thesis
    unfolding neg num using ds(1) by simp
qed

lemma no_digit_run:
  assumes "S1 = [] \<or> \<not> radix_digit 10 (hd S1)"
  shows "take 2 S1 \<noteq> ''0x''" "take 2 S1 \<noteq> ''0X''" "takeWhile (radix_digit 10) S1 = []"
proof -
  have zero: "radix_digit 10 CHR ''0''"
    by (simp add: decimal_digit_range)
  show "takeWhile (radix_digit 10) S1 = []"
    using assms by (simp add: takeWhile_eq_Nil_iff)
  show "take 2 S1 \<noteq> ''0x''" "take 2 S1 \<noteq> ''0X''"
    using assms zero by (cases S1; auto simp: numeral_2_eq_2)+
qed

lemma parseInt_unsigned_NaN:
  assumes "list_all isWhiteSpace ws"
    and "rest = [] \<or> (\<not> isWhiteSpace (hd rest) \<and> hd rest \<noteq> CHR ''+'' \<and> hd rest \<noteq> CHR ''-''
           \<and> \<not> radix_digit 10 (hd rest))"
  shows "parseInt (ws @ rest) = NaN"
proof -
  have skip: "dropWhile isWhiteSpace (ws @ rest) = rest"
    using assms by (intro skip_white_space) auto
  have nd: "rest = [] \<or> \<not> radix_digit 10 (hd rest)"
    using assms(2) by auto
  have unsigned: "rest =
      (if rest \<noteq> [] \<and> (hd rest = CHR ''+'' \<or> hd rest = CHR ''-'') then tl rest else rest)"
    using assms(2) by auto
  from parseInt_eval [OF skip unsigned no_digit_run [OF nd]]
  show ?thesis by simp
qed

lemma parseInt_signed_NaN:
  assumes "list_all isWhiteSpace ws"
    and "c = CHR ''+'' \<or> c = CHR ''-''"
    and "rest = [] \<or> \<not> radix_digit 10 (hd rest)"
  shows "parseInt (ws @ [c] @ rest) = NaN"
proof -
  have "\<not> isWhiteSpace c"
    using assms(2) by (auto simp: isWhiteSpace_def)
  then have skip: "dropWhile isWhiteSpace (ws @ [c] @ rest) = c # rest"
    using assms(1) skip_white_space [of ws "[c] @ rest"] by simp
  have unsigned: "rest =
      (if c # rest \<noteq> [] \<and> (hd (c # rest) = CHR ''+'' \<or> hd (c # rest) = CHR ''-'')
       then tl (c # rest) else c # rest)"
    using assms(2) by auto
  from parseInt_eval [OF skip unsigned no_digit_run [OF assms(3)]]
  show ?thesis by simp
qed

text \<open>
  Claim C7, as stated: the threshold is 10 days whenever the configured value is absent
  or is not a valid integer. It is not: \<open>parseInt\<close> reads the digits a string starts with
  and ignores the rest, so the value \<open>12abc\<close>, which is not a valid integer, gives 12 days,
  as argument and as environment variable.
\<close>

theorem purge_days_trailing_text_counterexample:
  "\<not> valid_integer ''12abc'' \<and> purge_days None (Some ''12abc'') = 12
   \<and> purge_days (Some ''12abc'') None = 12"
  by code_simp

text \<open>
  Claim C7, amended: the threshold is 10 days when the configured value (the argument,
  or else the environment variable) is absent or empty, or has no decimal digit right
  after its leading white space and one optional sign. When a run of decimal digits
  stands there (not the \<open>0\<close> of a prefix \<open>0x\<close> or \<open>0X\<close>), of a value below \<open>2^53\<close>, the
  threshold is the integer they denote, with the sign, whatever follows the digits.
\<close>

theorem purge_days_reads_leading_integer:
  "(default_maxGameDays env arg = None \<or> default_maxGameDays env arg = Some []
      \<longrightarrow> purge_days env arg = 10)
   \<and> (default_maxGameDays env arg = Some (ws @ rest) \<and> list_all isWhiteSpace ws
       \<and> (rest = [] \<or> (\<not> isWhiteSpace (hd rest) \<and> hd rest \<noteq> CHR ''+'' \<and> hd rest \<noteq> CHR ''-''
             \<and> \<not> radix_digit 10 (hd rest)))
      \<longrightarrow> purge_days env arg = 10)
   \<and> (default_maxGameDays env arg = Some (ws @ [c] @ rest) \<and> list_all isWhiteSpace ws
       \<and> (c = CHR ''+'' \<or> c = CHR ''-'') \<and> (rest = [] \<or> \<not> radix_digit 10 (hd rest))
      \<longrightarrow> purge_days env arg = 10)
   \<and> (default_maxGameDays env arg = Some (ws @ sg @ ds @ rest) \<and> list_all isWhiteSpace ws
       \<and> (sg = [] \<or> sg = ''+'' \<or> sg = ''-'')
       \<and> ds \<noteq> [] \<and> list_all (radix_digit 10) ds
       \<and> (rest = [] \<or> \<not> radix_digit 10 (hd rest))
       \<and> \<not> (ds = ''0'' \<and> rest \<noteq> [] \<and> (hd rest = CHR ''x'' \<or> hd rest = CHR ''X''))
       \<and> digits_value 10 ds < 2 ^ 53
      \<longrightarrow> purge_days env arg =
            (if sg = ''-'' then - digits_value 10 ds else digits_value 10 ds))"
proof (intro conjI impI)
  assume "default_maxGameDays env arg = None \<or> default_maxGameDays env arg = Some []"
  then show "purge_days env arg = 10"
    by (auto simp: purge_days_def parseInt_def)
next
  assume "default_maxGameDays env arg = Some (ws @ rest) \<and> list_all isWhiteSpace ws
       \<and> (rest = [] \<or> (\<not> isWhiteSpace (hd rest) \<and> hd rest \<noteq> CHR ''+'' \<and> hd rest \<noteq> CHR ''-''
             \<and> \<not> radix_digit 10 (hd rest)))"
  then show "purge_days env arg = 10"
    by (simp add: purge_days_def parseInt_unsigned_NaN)
next
  assume "default_maxGameDays env arg = Some (ws @ [c] @ rest) \<and> list_all isWhiteSpace ws
       \<and> (c = CHR ''+'' \<or> c = CHR ''-'') \<and> (rest = [] \<or> \<not> radix_digit 10 (hd rest))"
  then show "purge_days env arg = 10"
    using parseInt_signed_NaN [of ws c rest] by (simp add: purge_days_def)
next
  assume a: "default_maxGameDays env arg = Some (ws @ sg @ ds @ rest) \<and> list_all isWhiteSpace ws
       \<and> (sg = [] \<or> sg = ''+'' \<or> sg = ''-'')
       \<and> ds \<noteq> [] \<and> list_all (radix_digit 10) ds
       \<and> (rest = [] \<or> \<not> radix_digit 10 (hd rest))
       \<and> \<not> (ds = ''0'' \<and> rest \<noteq> [] \<and> (hd rest = CHR ''x'' \<or> hd rest = CHR ''X''))
       \<and> digits_value 10 ds < 2 ^ 53"
  then have "parseInt (ws @ sg @ ds @ rest) =
     Finite (if sg = ''-'' then - digits_value 10 ds else digits_value 10 ds)"
    by (intro parseInt_decimal) simp_all
  with a show "purge_days env arg =
            (if sg = ''-'' then - digits_value 10 ds else digits_value 10 ds)"
    by (simp add: purge_days_def)
qed

theorem purge_days_reads_leading_integer_witness:
  "purge_days None None = 10
   \<and> purge_days None (Some ''abc'') = 10
   \<and> purge_days (Some '' -x'') None = 10
   \<and> purge_days (Some '' -12abc'') None = - 12
   \<and> purge_days (Some ''3'') None = 3"
proof -
  have d12: "digits_value 10 ''12'' = 12" and d3: "digits_value 10 ''3'' = 3"
    by code_simp+
  have dig: "list_all (radix_digit 10) ''12''" "list_all (radix_digit 10) ''3''"
    "\<not> radix_digit 10 CHR ''a''" "\<not> radix_digit 10 CHR ''x''"
    by code_simp+
  have ws: "list_all isWhiteSpace '' ''" "\<not> isWhiteSpace CHR ''a''"
    by code_simp+
  from purge_days_reads_leading_integer [of None None]
  have "purge_days None None = 10"
    by (simp add: default_maxGameDays_def)
  moreover from purge_days_reads_leading_integer [of None "Some ''abc''" "[]" "''abc''"]
  have "purge_days None (Some ''abc'') = 10"
    using dig ws by (simp add: default_maxGameDays_def)
  moreover from purge_days_reads_leading_integer [of "Some '' -x''" None "'' ''" "''x''" "CHR ''-''"]
  have "purge_days (Some '' -x'') None = 10"
    using dig ws by (simp add: default_maxGameDays_def)
  moreover from purge_days_reads_leading_integer
    [of "Some '' -12abc''" None "'' ''" "''abc''" _ "''-''" "''12''"]
  have "purge_days (Some '' -12abc'') None = - 12"
    using dig ws d12 by (simp add: default_maxGameDays_def)
  moreover from purge_days_reads_leading_integer
    [of "Some ''3''" None "[]" "[]" _ "[]" "''3''"]
  have "purge_days (Some ''3'') None = 3"
    using dig d3 by (simp add: default_maxGameDays_def)
  ultimately show ?thesis by simp
qed

subsection \<open>The purge sweep\<close>








end
